theory Spec2Isabelle
  imports
    Complex_Main
    "HOL-Library.Multiset"
    "HOL-Library.Char_ord"
    "HOL-Library.List_Lexorder"
    "HOL-Library.Product_Lexorder"
    "HOL-Library.Code_Target_Numeral"
begin

section \<open>Python values and exceptions\<close>

text \<open>
  The accounting core of poise (\<^verbatim>\<open>engine/pnl.py\<close>, \<^verbatim>\<open>services/account.py\<close>) is embedded
  function by function. Every exception the Python can raise is a value \<open>Inl e\<close> of the
  result type \<open>error + 'a\<close>.

  \<^verbatim>\<open>Decimal\<close> values are the exact rationals they denote: the default context of the
  \<^verbatim>\<open>decimal\<close> module rounds to 28 significant digits, and the model is the arithmetic
  below that precision. The special values NaN and Infinity are not represented.
  Text is ASCII text (one \<open>char\<close> per character).
\<close>

datatype error =
    KeyError string
  | IndexError
  | InvalidOperation
  | ValueError
  | JSONDecodeError
  | RequestError

type_synonym decimal = rat

definition bind :: "error + 'a \<Rightarrow> ('a \<Rightarrow> error + 'b) \<Rightarrow> error + 'b" where
  "bind r f = (case r of Inl e \<Rightarrow> Inl e | Inr v \<Rightarrow> f v)"

text \<open>\<^verbatim>\<open>d[k]\<close> on a dict: the entry of a key is \<open>None\<close> when the key is absent.\<close>

definition getitem :: "string \<Rightarrow> 'a option \<Rightarrow> error + 'a" where
  "getitem k entry = (case entry of None \<Rightarrow> Inl (KeyError k) | Some v \<Rightarrow> Inr v)"

text \<open>
  A raw numeric entry, by what \<^verbatim>\<open>Decimal(v)\<close> and \<^verbatim>\<open>Decimal(str(v))\<close> make of it:
  \<open>Numeric q\<close> is a number or a numeric string denoting \<open>q\<close>; \<open>NonNumeric\<close> is any value
  the constructor rejects with \<^verbatim>\<open>decimal.InvalidOperation\<close>.
\<close>

datatype numsrc = Numeric decimal | NonNumeric

fun Decimal :: "numsrc \<Rightarrow> error + decimal" where
  "Decimal (Numeric q) = Inr q"
| "Decimal NonNumeric = Inl InvalidOperation"

text \<open>Running a fallible function over a list, left to right, stopping at the first error.\<close>

fun mapM :: "('a \<Rightarrow> error + 'b) \<Rightarrow> 'a list \<Rightarrow> error + 'b list" where
  "mapM f [] = Inr []"
| "mapM f (x # xs) = bind (f x) (\<lambda>y. bind (mapM f xs) (\<lambda>ys. Inr (y # ys)))"

subsection \<open>Text: \<^verbatim>\<open>str.strip\<close>, \<^verbatim>\<open>str.lower\<close>, \<^verbatim>\<open>int(s)\<close>, \<^verbatim>\<open>str(n)\<close>\<close>

definition is_space :: "char \<Rightarrow> bool" where
  "is_space c = (let n = (of_char c :: nat) in (9 \<le> n \<and> n \<le> 13) \<or> (28 \<le> n \<and> n \<le> 32))"

definition strip :: "string \<Rightarrow> string" where
  "strip s = rev (dropWhile is_space (rev (dropWhile is_space s)))"

definition lower_char :: "char \<Rightarrow> char" where
  "lower_char c = (let n = (of_char c :: nat) in if 65 \<le> n \<and> n \<le> 90 then char_of (n + 32) else c)"

definition lower :: "string \<Rightarrow> string" where
  "lower s = map lower_char s"

definition is_digit :: "char \<Rightarrow> bool" where
  "is_digit c = (let n = (of_char c :: nat) in 48 \<le> n \<and> n \<le> 57)"

definition digit_val :: "char \<Rightarrow> nat" where
  "digit_val c = of_char c - 48"

definition digit_char :: "nat \<Rightarrow> char" where
  "digit_char d = char_of (48 + d)"

text \<open>
  The digits of an integer literal: a digit, then digits, each optionally preceded by one
  underscore.
\<close>

fun digits_val :: "nat \<Rightarrow> string \<Rightarrow> nat option" where
  "digits_val acc [] = Some acc"
| "digits_val acc (c # cs) =
     (if is_digit c then digits_val (acc * 10 + digit_val c) cs
      else if c = CHR ''_'' \<and> cs \<noteq> [] \<and> is_digit (hd cs) then digits_val acc cs
      else None)"

definition parse_nat :: "string \<Rightarrow> nat option" where
  "parse_nat s = (case s of [] \<Rightarrow> None | c # _ \<Rightarrow> if is_digit c then digits_val 0 s else None)"

definition py_int :: "string \<Rightarrow> error + int" where
  "py_int s =
     (case strip s of
        [] \<Rightarrow> Inl ValueError
      | c # cs \<Rightarrow>
          if c = CHR ''-'' then
            (case parse_nat cs of None \<Rightarrow> Inl ValueError | Some n \<Rightarrow> Inr (- int n))
          else if c = CHR ''+'' then
            (case parse_nat cs of None \<Rightarrow> Inl ValueError | Some n \<Rightarrow> Inr (int n))
          else
            (case parse_nat (c # cs) of None \<Rightarrow> Inl ValueError | Some n \<Rightarrow> Inr (int n)))"

fun digits :: "nat \<Rightarrow> string" where
  "digits n = (if n < 10 then [digit_char n] else digits (n div 10) @ [digit_char (n mod 10)])"

definition py_str :: "int \<Rightarrow> string" where
  "py_str i = (if i < 0 then CHR ''-'' # digits (nat (- i)) else digits (nat i))"

declare digits.simps [simp del]

section \<open>Data model\<close>

text \<open>\<^verbatim>\<open>models/trade.py\<close>, \<^verbatim>\<open>models/trade_group.py\<close>, \<^verbatim>\<open>models/position.py\<close>.\<close>

record Trade =
  trade_id :: string
  market :: string
  asset_id :: string
  side :: string
  trade_size :: decimal
  price :: decimal
  fee_rate_bps :: decimal
  status :: string
  match_time :: string
  outcome :: string
  transaction_hash :: string
  trader_side :: string
  market_title :: string
  category :: string

record TradeGroup =
  g_market :: string
  g_market_title :: string
  g_category :: string
  g_outcome :: string
  last_match_time :: string
  avg_buy_price :: decimal
  total_bought :: decimal
  pnl :: decimal

record Position =
  p_market :: string
  p_market_title :: string
  p_category :: string
  p_outcome :: string
  p_avg_buy_price :: decimal
  current_price :: decimal
  net_shares :: decimal
  p_total_bought :: decimal
  last_buy_time :: string

section \<open>The P&L engine (\<^verbatim>\<open>engine/pnl.py\<close>)\<close>

definition BPS :: decimal where
  "BPS = 10000"

text \<open>
  \<^verbatim>\<open>buckets[k] = f(buckets[k])\<close> on an insertion-ordered \<^verbatim>\<open>defaultdict\<close> whose missing
  entries read as \<open>dflt\<close>.
\<close>

fun dd_update :: "'v \<Rightarrow> 'k \<Rightarrow> ('v \<Rightarrow> 'v) \<Rightarrow> ('k \<times> 'v) list \<Rightarrow> ('k \<times> 'v) list" where
  "dd_update dflt k f [] = [(k, f dflt)]"
| "dd_update dflt k f ((k', v) # rest) =
     (if k = k' then (k', f v) # rest else (k', v) # dd_update dflt k f rest)"

text \<open>
  \<^verbatim>\<open>datetime.fromtimestamp(n).strftime("%Y-%m-%d")\<close> reads the local time zone of the
  process and fails outside the range of \<^verbatim>\<open>datetime\<close>: it is the parameter \<open>day_of\<close>.
\<close>

fun daily_loop ::
  "(int \<Rightarrow> error + string) \<Rightarrow> Trade list \<Rightarrow> (string \<times> decimal) list \<Rightarrow> error + (string \<times> decimal) list"
where
  "daily_loop day_of [] buckets = Inr buckets"
| "daily_loop day_of (trade # trades) buckets =
     bind (py_int (match_time trade)) (\<lambda>ts.
     bind (day_of ts) (\<lambda>day.
       let gross = price trade * trade_size trade;
           fee = gross * fee_rate_bps trade / BPS
       in if side trade = ''SELL''
          then daily_loop day_of trades (dd_update 0 day (\<lambda>v. v + (gross - fee)) buckets)
          else daily_loop day_of trades (dd_update 0 day (\<lambda>v. v - (gross + fee)) buckets)))"

text \<open>\<^verbatim>\<open>sorted(buckets.items(), reverse=True)\<close>: the keys of a dict are distinct.\<close>

definition daily_pnl :: "(int \<Rightarrow> error + string) \<Rightarrow> Trade list \<Rightarrow> error + (string \<times> decimal) list" where
  "daily_pnl day_of trades = bind (daily_loop day_of trades []) (\<lambda>buckets. Inr (rev (sort buckets)))"

definition total_pnl :: "(string \<times> decimal) list \<Rightarrow> decimal" where
  "total_pnl daily = sum_list (map snd daily)"

definition trade_pnl :: "Trade \<Rightarrow> decimal" where
  "trade_pnl trade =
     (let gross = price trade * trade_size trade;
          fee = gross * fee_rate_bps trade / BPS
      in if side trade = ''SELL'' then gross - fee else - (gross + fee))"

text \<open>
  \<^verbatim>\<open>max(xs, key=key)\<close>: the keys are computed left to right, the first element with the
  greatest key wins, and an empty \<open>xs\<close> raises \<^verbatim>\<open>ValueError\<close>.
\<close>

fun max_loop :: "('a \<Rightarrow> error + int) \<Rightarrow> 'a \<Rightarrow> int \<Rightarrow> 'a list \<Rightarrow> error + 'a" where
  "max_loop key best bk [] = Inr best"
| "max_loop key best bk (x # xs) =
     bind (key x) (\<lambda>k. if bk < k then max_loop key x k xs else max_loop key best bk xs)"

definition py_max_key :: "('a \<Rightarrow> error + int) \<Rightarrow> 'a list \<Rightarrow> error + 'a" where
  "py_max_key key xs =
     (case xs of
        [] \<Rightarrow> Inl ValueError
      | x # rest \<Rightarrow> bind (key x) (\<lambda>k. max_loop key x k rest))"

text \<open>\<^verbatim>\<open>max(f(x) for x in xs)\<close>.\<close>

definition py_max :: "('a \<Rightarrow> error + int) \<Rightarrow> 'a list \<Rightarrow> error + int" where
  "py_max f xs =
     bind (mapM f xs) (\<lambda>ks. case ks of [] \<Rightarrow> Inl ValueError | k # rest \<Rightarrow> Inr (fold max rest k))"

text \<open>
  \<^verbatim>\<open>sorted(xs, key=key, reverse=True)\<close>: every key is computed first, and the sort is
  stable (elements with equal keys keep their order).
\<close>

definition sorted_desc :: "('a \<Rightarrow> error + int) \<Rightarrow> 'a list \<Rightarrow> error + 'a list" where
  "sorted_desc key xs =
     bind (mapM key xs) (\<lambda>ks. Inr (map snd (sort_key (\<lambda>p. - fst p) (zip ks xs))))"

text \<open>
  The loop \<^verbatim>\<open>for x in xs: buckets[key(x)].append(x)\<close> on a \<^verbatim>\<open>defaultdict(list)\<close>.
\<close>

definition collect :: "('a \<Rightarrow> 'k) \<Rightarrow> 'a list \<Rightarrow> ('k \<times> 'a list) list \<Rightarrow> ('k \<times> 'a list) list" where
  "collect key xs buckets = fold (\<lambda>x b. dd_update [] (key x) (\<lambda>vs. vs @ [x]) b) xs buckets"

abbreviation trade_key :: "Trade \<Rightarrow> string \<times> string" where
  "trade_key t \<equiv> (market t, outcome t)"

abbreviation group_key :: "TradeGroup \<Rightarrow> string \<times> string" where
  "group_key g \<equiv> (g_market g, g_outcome g)"

definition trade_buckets :: "Trade list \<Rightarrow> ((string \<times> string) \<times> Trade list) list" where
  "trade_buckets trades = collect trade_key trades []"

text \<open>The body of the loop over \<^verbatim>\<open>buckets.items()\<close>.\<close>

definition make_group :: "(string \<times> string) \<times> Trade list \<Rightarrow> error + TradeGroup" where
  "make_group entry =
     (case entry of ((mkt, outc), fills) \<Rightarrow>
        bind (py_max_key (\<lambda>t. py_int (match_time t)) fills) (\<lambda>latest.
          let buy_fills = filter (\<lambda>t. side t = ''BUY'') fills;
              total_buy_size = sum_list (map trade_size buy_fills);
              total_buy_value = sum_list (map (\<lambda>t. price t * trade_size t) buy_fills);
              avg = (if buy_fills \<noteq> []
                     then (if total_buy_size \<noteq> 0 then total_buy_value / total_buy_size else 0)
                     else 0);
              bought = (if buy_fills \<noteq> [] then total_buy_value else 0);
              net = sum_list (map trade_pnl fills)
          in case fills of
               [] \<Rightarrow> Inl IndexError
             | first # _ \<Rightarrow>
                 Inr \<lparr> g_market = mkt, g_market_title = market_title first,
                       g_category = category first, g_outcome = outc,
                       last_match_time = match_time latest, avg_buy_price = avg,
                       total_bought = bought, pnl = net \<rparr>))"

definition group_trades :: "Trade list \<Rightarrow> error + TradeGroup list" where
  "group_trades trades =
     bind (mapM make_group (trade_buckets trades))
       (sorted_desc (\<lambda>g. py_int (last_match_time g)))"

section \<open>The account service (\<^verbatim>\<open>services/account.py\<close>)\<close>

subsection \<open>Raw records\<close>

text \<open>
  A raw record is a dict; each field below is the entry of one key, \<open>None\<close> when the key
  is absent. Text entries are strings. A timestamp entry is an integer or a string.
\<close>

datatype scalar = IntVal int | StrVal string

fun str_of :: "scalar \<Rightarrow> string" where
  "str_of (IntVal n) = py_str n"
| "str_of (StrVal s) = s"

fun int_of :: "scalar \<Rightarrow> error + int" where
  "int_of (IntVal n) = Inr n"
| "int_of (StrVal s) = py_int s"

record fill =
  f_id :: "string option"
  f_market :: "string option"
  f_asset_id :: "string option"
  f_side :: "string option"
  f_size :: "numsrc option"
  f_price :: "numsrc option"
  f_fee_rate_bps :: "numsrc option"
  f_status :: "string option"
  f_match_time :: "string option"
  f_outcome :: "string option"
  f_transaction_hash :: "string option"
  f_trader_side :: "string option"

record activity =
  a_type :: "string option"
  a_conditionId :: "string option"
  a_asset :: "string option"
  a_side :: "string option"
  a_size :: "numsrc option"
  a_price :: "numsrc option"
  a_usdcSize :: "numsrc option"
  a_timestamp :: "scalar option"
  a_outcome :: "string option"
  a_title :: "string option"
  a_slug :: "string option"
  a_transactionHash :: "string option"

definition category_from_slug :: "string \<Rightarrow> string" where
  "category_from_slug slug = (if slug \<noteq> [] then takeWhile (\<lambda>c. c \<noteq> CHR ''-'') slug else [])"

subsection \<open>\<^verbatim>\<open>get_trades\<close>\<close>

definition trade_of_fill :: "fill \<Rightarrow> error + Trade" where
  "trade_of_fill t =
     bind (getitem ''id'' (f_id t)) (\<lambda>v_id.
     bind (getitem ''market'' (f_market t)) (\<lambda>v_market.
     bind (getitem ''asset_id'' (f_asset_id t)) (\<lambda>v_asset.
     bind (getitem ''side'' (f_side t)) (\<lambda>v_side.
     bind (bind (getitem ''size'' (f_size t)) Decimal) (\<lambda>v_size.
     bind (bind (getitem ''price'' (f_price t)) Decimal) (\<lambda>v_price.
     bind (bind (getitem ''fee_rate_bps'' (f_fee_rate_bps t)) Decimal) (\<lambda>v_fee.
     bind (getitem ''status'' (f_status t)) (\<lambda>v_status.
     bind (getitem ''match_time'' (f_match_time t)) (\<lambda>v_time.
     bind (getitem ''outcome'' (f_outcome t)) (\<lambda>v_outcome.
     bind (getitem ''transaction_hash'' (f_transaction_hash t)) (\<lambda>v_hash.
     bind (getitem ''trader_side'' (f_trader_side t)) (\<lambda>v_trader.
       Inr \<lparr> trade_id = v_id, market = v_market, asset_id = v_asset, side = v_side,
             trade_size = v_size, price = v_price, fee_rate_bps = v_fee, status = v_status,
             match_time = v_time, outcome = v_outcome, transaction_hash = v_hash,
             trader_side = v_trader, market_title = [], category = [] \<rparr>))))))))))))"

definition get_trades :: "fill list \<Rightarrow> error + Trade list" where
  "get_trades raw_trades = mapM trade_of_fill raw_trades"

subsection \<open>\<^verbatim>\<open>get_trade_groups\<close>\<close>

text \<open>The \<^verbatim>\<open>Trade(...)\<close> built from a TRADE activity, with its title and category.\<close>

definition titled_trade_of_activity :: "activity \<Rightarrow> error + Trade" where
  "titled_trade_of_activity a =
     bind (getitem ''transactionHash'' (a_transactionHash a)) (\<lambda>v_id.
     bind (getitem ''conditionId'' (a_conditionId a)) (\<lambda>v_market.
     bind (getitem ''side'' (a_side a)) (\<lambda>v_side.
     bind (bind (getitem ''size'' (a_size a)) Decimal) (\<lambda>v_size.
     bind (bind (getitem ''price'' (a_price a)) Decimal) (\<lambda>v_price.
     bind (getitem ''timestamp'' (a_timestamp a)) (\<lambda>v_time.
     bind (getitem ''outcome'' (a_outcome a)) (\<lambda>v_outcome.
     bind (getitem ''transactionHash'' (a_transactionHash a)) (\<lambda>v_hash.
     bind (getitem ''title'' (a_title a)) (\<lambda>v_title.
     bind (getitem ''slug'' (a_slug a)) (\<lambda>v_slug.
       Inr \<lparr> trade_id = v_id, market = v_market,
             asset_id = (case a_asset a of None \<Rightarrow> [] | Some v \<Rightarrow> v), side = v_side,
             trade_size = v_size, price = v_price, fee_rate_bps = 0, status = ''CONFIRMED'',
             match_time = str_of v_time, outcome = v_outcome, transaction_hash = v_hash,
             trader_side = [], market_title = v_title,
             category = category_from_slug v_slug \<rparr>))))))))))"

fun trade_activities :: "activity list \<Rightarrow> error + Trade list" where
  "trade_activities [] = Inr []"
| "trade_activities (a # rest) =
     bind (getitem ''type'' (a_type a)) (\<lambda>ty.
       if ty \<noteq> ''TRADE'' then trade_activities rest
       else bind (titled_trade_of_activity a) (\<lambda>t.
            bind (trade_activities rest) (\<lambda>ts. Inr (t # ts))))"

text \<open>The loop \<^verbatim>\<open>redeems[a["conditionId"]].append(a)\<close> over the REDEEM activities.\<close>

fun redeem_loop ::
  "activity list \<Rightarrow> (string \<times> activity list) list \<Rightarrow> error + (string \<times> activity list) list"
where
  "redeem_loop [] redeems = Inr redeems"
| "redeem_loop (a # rest) redeems =
     bind (getitem ''type'' (a_type a)) (\<lambda>ty.
       if ty = ''REDEEM''
       then bind (getitem ''conditionId'' (a_conditionId a)) (\<lambda>cid.
              redeem_loop rest (dd_update [] cid (\<lambda>rs. rs @ [a]) redeems))
       else redeem_loop rest redeems)"

text \<open>\<^verbatim>\<open>Decimal(str(r["usdcSize"]))\<close>.\<close>

definition payout_of :: "activity \<Rightarrow> error + decimal" where
  "payout_of r = bind (getitem ''usdcSize'' (a_usdcSize r)) Decimal"

text \<open>\<^verbatim>\<open>sum(Decimal(str(r["usdcSize"])) for r in market_redeems)\<close>.\<close>

definition redeem_total :: "activity list \<Rightarrow> error + decimal" where
  "redeem_total market_redeems =
     bind (mapM payout_of market_redeems) (\<lambda>payouts. Inr (sum_list payouts))"

text \<open>\<^verbatim>\<open>int(r["timestamp"])\<close>.\<close>

definition timestamp_of :: "activity \<Rightarrow> error + int" where
  "timestamp_of r = bind (getitem ''timestamp'' (a_timestamp r)) int_of"

text \<open>The body of the loop \<^verbatim>\<open>for g in groups\<close>.\<close>

definition augment :: "(string \<times> activity list) list \<Rightarrow> TradeGroup \<Rightarrow> error + TradeGroup" where
  "augment redeems g =
     (let market_redeems = (case map_of redeems (g_market g) of None \<Rightarrow> [] | Some rs \<Rightarrow> rs)
      in if market_redeems \<noteq> [] then
           bind (redeem_total market_redeems) (\<lambda>total.
           bind (py_max timestamp_of market_redeems) (\<lambda>latest.
           bind (py_int (last_match_time g)) (\<lambda>group_time.
           bind (py_int (py_str latest)) (\<lambda>latest_redeem.
             Inr (g \<lparr> pnl := pnl g + total,
                      last_match_time := py_str (max group_time latest_redeem) \<rparr>)))))
         else Inr g)"

text \<open>The sentinel outcome of a redemption-only group: an em dash, in UTF-8.\<close>

definition unknown_outcome :: string where
  "unknown_outcome = [char_of (226 :: nat), char_of (128 :: nat), char_of (148 :: nat)]"

text \<open>The body of the loop \<^verbatim>\<open>for cid, market_redeems in redeems.items()\<close>.\<close>

definition redeem_only ::
  "string list \<Rightarrow> string \<times> activity list \<Rightarrow> error + TradeGroup list" where
  "redeem_only grouped_markets entry =
     (case entry of (cid, market_redeems) \<Rightarrow>
        if cid \<in> set grouped_markets then Inr []
        else
          bind (redeem_total market_redeems) (\<lambda>total.
          bind (py_max_key timestamp_of market_redeems) (\<lambda>latest.
          bind (getitem ''title'' (a_title latest)) (\<lambda>v_title.
          bind (getitem ''slug'' (a_slug latest)) (\<lambda>v_slug.
          bind (getitem ''timestamp'' (a_timestamp latest)) (\<lambda>v_time.
            Inr [\<lparr> g_market = cid, g_market_title = v_title,
                   g_category = category_from_slug v_slug, g_outcome = unknown_outcome,
                   last_match_time = str_of v_time, avg_buy_price = 0,
                   total_bought = 0, pnl = total \<rparr>]))))))"

text \<open>Lines 107 to 144: the reconciliation of the groups with the REDEEM activities.\<close>

definition reconcile :: "activity list \<Rightarrow> TradeGroup list \<Rightarrow> error + TradeGroup list" where
  "reconcile activities groups =
     bind (redeem_loop activities []) (\<lambda>redeems.
     bind (mapM (augment redeems) groups) (\<lambda>augmented.
     bind (mapM (redeem_only (map g_market groups)) redeems) (\<lambda>synthesized.
       sorted_desc (\<lambda>g. py_int (last_match_time g)) (augmented @ concat synthesized))))"

definition get_trade_groups :: "activity list \<Rightarrow> error + TradeGroup list" where
  "get_trade_groups activities =
     bind (trade_activities activities) (\<lambda>trades.
     bind (group_trades trades) (\<lambda>groups.
       reconcile activities groups))"

subsection \<open>\<^verbatim>\<open>_activities_as_trades\<close>\<close>

text \<open>The body of the loop: the trades one activity appends.\<close>

definition activity_as_trades :: "activity \<Rightarrow> error + Trade list" where
  "activity_as_trades a =
     bind (getitem ''type'' (a_type a)) (\<lambda>ty.
       if ty = ''TRADE'' then
         bind (getitem ''transactionHash'' (a_transactionHash a)) (\<lambda>v_id.
         bind (getitem ''conditionId'' (a_conditionId a)) (\<lambda>v_market.
         bind (getitem ''side'' (a_side a)) (\<lambda>v_side.
         bind (bind (getitem ''size'' (a_size a)) Decimal) (\<lambda>v_size.
         bind (bind (getitem ''price'' (a_price a)) Decimal) (\<lambda>v_price.
         bind (getitem ''timestamp'' (a_timestamp a)) (\<lambda>v_time.
         bind (getitem ''outcome'' (a_outcome a)) (\<lambda>v_outcome.
         bind (getitem ''transactionHash'' (a_transactionHash a)) (\<lambda>v_hash.
           Inr [\<lparr> trade_id = v_id, market = v_market,
                  asset_id = (case a_asset a of None \<Rightarrow> [] | Some v \<Rightarrow> v), side = v_side,
                  trade_size = v_size, price = v_price, fee_rate_bps = 0,
                  status = ''CONFIRMED'', match_time = str_of v_time, outcome = v_outcome,
                  transaction_hash = v_hash, trader_side = [], market_title = [],
                  category = [] \<rparr>]))))))))
       else if ty = ''REDEEM'' then
         bind (bind (getitem ''size'' (a_size a)) Decimal) (\<lambda>v_size.
           if v_size = 0 then Inr []
           else
             bind (bind (getitem ''usdcSize'' (a_usdcSize a)) Decimal) (\<lambda>payout.
             bind (getitem ''transactionHash'' (a_transactionHash a)) (\<lambda>v_id.
             bind (getitem ''conditionId'' (a_conditionId a)) (\<lambda>v_market.
             bind (getitem ''timestamp'' (a_timestamp a)) (\<lambda>v_time.
             bind (getitem ''transactionHash'' (a_transactionHash a)) (\<lambda>v_hash.
               Inr [\<lparr> trade_id = v_id, market = v_market, asset_id = [], side = ''SELL'',
                      trade_size = v_size, price = payout / v_size, fee_rate_bps = 0,
                      status = ''CONFIRMED'', match_time = str_of v_time, outcome = [],
                      transaction_hash = v_hash, trader_side = [], market_title = [],
                      category = [] \<rparr>]))))))
       else Inr [])"

fun activities_as_trades :: "activity list \<Rightarrow> error + Trade list" where
  "activities_as_trades [] = Inr []"
| "activities_as_trades (a # rest) =
     bind (activity_as_trades a) (\<lambda>ts.
     bind (activities_as_trades rest) (\<lambda>more. Inr (ts @ more)))"

definition get_pnl_summary ::
  "(int \<Rightarrow> error + string) \<Rightarrow> activity list \<Rightarrow> error + decimal \<times> (string \<times> decimal) list" where
  "get_pnl_summary day_of activities =
     bind (activities_as_trades activities) (\<lambda>trades.
     bind (daily_pnl day_of trades) (\<lambda>daily. Inr (total_pnl daily, daily)))"

subsection \<open>\<^verbatim>\<open>_current_price_for_outcome\<close>\<close>

text \<open>
  A market dict of the Gamma API. The entry of \<^verbatim>\<open>outcomes\<close> and of \<^verbatim>\<open>outcomePrices\<close> is
  \<open>NoKey\<close> when the key is absent, \<open>Items xs\<close> when the value (a list, or a string that
  \<^verbatim>\<open>json.loads\<close> reads as a list) has the elements \<open>xs\<close>, and \<open>Broken\<close> when
  \<^verbatim>\<open>json.loads\<close> rejects the string. An outcome element is given by its \<^verbatim>\<open>str\<close>, a price
  element by what \<^verbatim>\<open>Decimal(str(v))\<close> makes of it.
\<close>

datatype 'a entry = NoKey | Broken | Items "'a list"

record market_info =
  m_conditionId :: "string option"
  m_outcomes :: "string entry"
  m_outcomePrices :: "numsrc entry"

fun loads :: "'a entry \<Rightarrow> error + 'a list" where
  "loads NoKey = Inr []"
| "loads Broken = Inl JSONDecodeError"
| "loads (Items xs) = Inr xs"

text \<open>The loop over \<^verbatim>\<open>enumerate(outcomes)\<close>; \<open>Inr None\<close> when it ends without a return.\<close>

fun price_loop :: "string \<Rightarrow> numsrc list \<Rightarrow> nat \<Rightarrow> string list \<Rightarrow> error + decimal option" where
  "price_loop target prices i [] = Inr None"
| "price_loop target prices i (outc # rest) =
     (if lower (strip outc) = target
      then (if i < length prices
            then bind (Decimal (prices ! i)) (\<lambda>p. Inr (Some p))
            else Inl IndexError)
      else price_loop target prices (Suc i) rest)"

definition price_try :: "market_info \<Rightarrow> string \<Rightarrow> error + decimal option" where
  "price_try info outc =
     bind (loads (m_outcomes info)) (\<lambda>outcomes.
     bind (loads (m_outcomePrices info)) (\<lambda>prices.
       price_loop (lower (strip outc)) prices 0 outcomes))"

definition current_price_for_outcome :: "market_info \<Rightarrow> string \<Rightarrow> decimal" where
  "current_price_for_outcome info outc =
     (case price_try info outc of
        Inr (Some p) \<Rightarrow> p
      | Inr None \<Rightarrow> 0
      | Inl e \<Rightarrow> 0)"

subsection \<open>\<^verbatim>\<open>get_open_positions\<close>\<close>

text \<open>The set \<^verbatim>\<open>redeemed\<close>, as the list of its elements.\<close>

fun redeemed_of :: "activity list \<Rightarrow> error + string list" where
  "redeemed_of [] = Inr []"
| "redeemed_of (a # rest) =
     bind (getitem ''type'' (a_type a)) (\<lambda>ty.
       if ty = ''REDEEM''
       then bind (getitem ''conditionId'' (a_conditionId a)) (\<lambda>cid.
            bind (redeemed_of rest) (\<lambda>more. Inr (cid # more)))
       else redeemed_of rest)"

text \<open>The loop that fills \<^verbatim>\<open>buckets\<close> and \<^verbatim>\<open>meta\<close> from the TRADE activities.\<close>

fun fills_loop ::
  "activity list \<Rightarrow> ((string \<times> string) \<times> activity list) list \<Rightarrow> (string \<rightharpoonup> string \<times> string) \<Rightarrow>
   error + ((string \<times> string) \<times> activity list) list \<times> (string \<rightharpoonup> string \<times> string)"
where
  "fills_loop [] buckets meta = Inr (buckets, meta)"
| "fills_loop (a # rest) buckets meta =
     bind (getitem ''type'' (a_type a)) (\<lambda>ty.
       if ty \<noteq> ''TRADE'' then fills_loop rest buckets meta
       else
         bind (getitem ''conditionId'' (a_conditionId a)) (\<lambda>cid.
         bind (getitem ''outcome'' (a_outcome a)) (\<lambda>outc.
           let buckets' = dd_update [] (cid, outc) (\<lambda>fills. fills @ [a]) buckets
           in if meta cid = None
              then bind (getitem ''title'' (a_title a)) (\<lambda>v_title.
                   bind (getitem ''slug'' (a_slug a)) (\<lambda>v_slug.
                     fills_loop rest buckets' (meta(cid \<mapsto> (v_title, v_slug)))))
              else fills_loop rest buckets' meta)))"

text \<open>\<^verbatim>\<open>[f for f in fills if f["side"] == s]\<close>.\<close>

fun with_side :: "string \<Rightarrow> activity list \<Rightarrow> error + activity list" where
  "with_side s [] = Inr []"
| "with_side s (f # fills) =
     bind (getitem ''side'' (a_side f)) (\<lambda>v.
     bind (with_side s fills) (\<lambda>more. Inr (if v = s then f # more else more)))"

definition size_of :: "activity \<Rightarrow> error + decimal" where
  "size_of f = bind (getitem ''size'' (a_size f)) Decimal"

definition value_of :: "activity \<Rightarrow> error + decimal" where
  "value_of f =
     bind (bind (getitem ''price'' (a_price f)) Decimal) (\<lambda>p.
     bind (bind (getitem ''size'' (a_size f)) Decimal) (\<lambda>s. Inr (p * s)))"

record open_raw =
  o_conditionId :: string
  o_outcome :: string
  o_avg_buy_price :: decimal
  o_net_shares :: decimal
  o_total_bought :: decimal
  o_last_buy_time :: string
  o_title :: string
  o_slug :: string

text \<open>The body of the loop over \<^verbatim>\<open>buckets.items()\<close>: the entries one bucket appends.\<close>

definition open_entry ::
  "string list \<Rightarrow> (string \<rightharpoonup> string \<times> string) \<Rightarrow> (string \<times> string) \<times> activity list \<Rightarrow>
   error + open_raw list" where
  "open_entry redeemed meta entry =
     (case entry of ((cid, outc), fills) \<Rightarrow>
        if cid \<in> set redeemed then Inr []
        else
          bind (with_side ''BUY'' fills) (\<lambda>buys.
          bind (with_side ''SELL'' fills) (\<lambda>sells.
          bind (mapM size_of buys) (\<lambda>buy_sizes.
          bind (mapM size_of sells) (\<lambda>sell_sizes.
            let total_buy_size = sum_list buy_sizes;
                total_sell_size = sum_list sell_sizes;
                net = total_buy_size - total_sell_size
            in if net \<le> 0 then Inr []
               else
                 bind (mapM value_of buys) (\<lambda>buy_values.
                   let total_buy_value = sum_list buy_values;
                       avg_price = (if total_buy_size \<noteq> 0
                                    then total_buy_value / total_buy_size else 0)
                   in bind (py_max timestamp_of buys) (\<lambda>latest.
                      bind (getitem cid (meta cid)) (\<lambda>m.
                        Inr [\<lparr> o_conditionId = cid, o_outcome = outc,
                               o_avg_buy_price = avg_price, o_net_shares = net,
                               o_total_bought = total_buy_value,
                               o_last_buy_time = py_str latest,
                               o_title = fst m, o_slug = snd m \<rparr>]))))))))"

text \<open>Lines 228 to 271: \<^verbatim>\<open>open_raw\<close> after its sort.\<close>

definition open_raw_of :: "activity list \<Rightarrow> error + open_raw list" where
  "open_raw_of activities =
     bind (redeemed_of activities) (\<lambda>redeemed.
     bind (fills_loop activities [] Map.empty) (\<lambda>(buckets, meta).
     bind (mapM (open_entry redeemed meta) buckets) (\<lambda>entries.
       sorted_desc (\<lambda>p. py_int (o_last_buy_time p)) (concat entries))))"

text \<open>\<^verbatim>\<open>{m["conditionId"]: m for m in markets}\<close>.\<close>

fun market_map_of ::
  "market_info list \<Rightarrow> (string \<rightharpoonup> market_info) \<Rightarrow> error + (string \<rightharpoonup> market_info)" where
  "market_map_of [] acc = Inr acc"
| "market_map_of (m # rest) acc =
     bind (getitem ''conditionId'' (m_conditionId m)) (\<lambda>cid. market_map_of rest (acc(cid \<mapsto> m)))"

text \<open>
  The call of the Gamma API is the parameter \<open>gamma\<close>; an exception in it, or in the
  building of the map, leaves the map empty. The order of the ids of the request is that
  of a Python set, here the order of first occurrence.
\<close>

definition market_map :: "(string list \<Rightarrow> error + market_info list) \<Rightarrow> open_raw list \<Rightarrow> string \<rightharpoonup> market_info" where
  "market_map gamma entries =
     (case bind (gamma (remdups (map o_conditionId entries))) (\<lambda>markets. market_map_of markets Map.empty) of
        Inl e \<Rightarrow> Map.empty
      | Inr mp \<Rightarrow> mp)"

definition empty_info :: market_info where
  "empty_info = \<lparr> m_conditionId = None, m_outcomes = NoKey, m_outcomePrices = NoKey \<rparr>"

definition DUST :: decimal where
  "DUST = 1 / 100"

text \<open>The loop that builds the positions, skipping dust.\<close>

fun positions_loop :: "(string \<rightharpoonup> market_info) \<Rightarrow> open_raw list \<Rightarrow> Position list" where
  "positions_loop mp [] = []"
| "positions_loop mp (p # rest) =
     (let info = (case mp (o_conditionId p) of None \<Rightarrow> empty_info | Some i \<Rightarrow> i);
          cur = current_price_for_outcome info (o_outcome p)
      in if cur * o_net_shares p \<le> DUST then positions_loop mp rest
         else \<lparr> p_market = o_conditionId p, p_market_title = o_title p,
                 p_category = category_from_slug (o_slug p), p_outcome = o_outcome p,
                 p_avg_buy_price = o_avg_buy_price p, current_price = cur,
                 net_shares = o_net_shares p, p_total_bought = o_total_bought p,
                 last_buy_time = o_last_buy_time p \<rparr> # positions_loop mp rest)"

definition get_open_positions ::
  "(string list \<Rightarrow> error + market_info list) \<Rightarrow> activity list \<Rightarrow> error + Position list" where
  "get_open_positions gamma activities =
     bind (open_raw_of activities) (\<lambda>entries.
       Inr (positions_loop (market_map gamma entries) entries))"

section \<open>Vocabulary of the statements\<close>

abbreviation is_trade :: "activity \<Rightarrow> bool" where
  "is_trade a \<equiv> a_type a = Some ''TRADE''"

abbreviation is_redeem :: "activity \<Rightarrow> bool" where
  "is_redeem a \<equiv> a_type a = Some ''REDEEM''"

abbreviation fill_key :: "activity \<Rightarrow> string \<times> string" where
  "fill_key a \<equiv> (the (a_conditionId a), the (a_outcome a))"


section \<open>Example data\<close>

text \<open>
  The two fills of the worked example: a BUY of 100 shares at 0.40 and a SELL of 100
  shares at 0.60 with a fee rate of 200 basis points, in one market and outcome.
\<close>

definition example_buy :: Trade where
  "example_buy = \<lparr> trade_id = ''b1'', market = ''0xabc'', asset_id = ''1'', side = ''BUY'',
     trade_size = 100, price = 2 / 5, fee_rate_bps = 0, status = ''CONFIRMED'',
     match_time = ''1700000000'', outcome = ''Yes'', transaction_hash = ''0x01'',
     trader_side = ''TAKER'', market_title = ''Rain?'', category = ''weather'' \<rparr>"

definition example_sell :: Trade where
  "example_sell = \<lparr> trade_id = ''s1'', market = ''0xabc'', asset_id = ''1'', side = ''SELL'',
     trade_size = 100, price = 3 / 5, fee_rate_bps = 200, status = ''CONFIRMED'',
     match_time = ''1700090000'', outcome = ''Yes'', transaction_hash = ''0x02'',
     trader_side = ''TAKER'', market_title = ''Rain?'', category = ''weather'' \<rparr>"


text \<open>Three fills in three markets, matched at the times 100, 300 and 200.\<close>

definition fill_at :: "string \<Rightarrow> string \<Rightarrow> Trade" where
  "fill_at m t = example_buy \<lparr> market := m, match_time := t \<rparr>"

text \<open>
  Activities: the BUY and the SELL above as TRADE entries, a redemption of 100 shares of
  the same market for 50, and a redemption in a market without any fill.
\<close>

definition activity_buy :: activity where
  "activity_buy = \<lparr> a_type = Some ''TRADE'', a_conditionId = Some ''0xabc'',
     a_asset = Some ''1'', a_side = Some ''BUY'', a_size = Some (Numeric 100),
     a_price = Some (Numeric (2 / 5)), a_usdcSize = Some (Numeric 40),
     a_timestamp = Some (IntVal 1700000000), a_outcome = Some ''Yes'',
     a_title = Some ''Rain?'', a_slug = Some ''weather-rain'',
     a_transactionHash = Some ''0x01'' \<rparr>"

definition activity_sell :: activity where
  "activity_sell = activity_buy \<lparr> a_side := Some ''SELL'', a_size := Some (Numeric 95),
     a_price := Some (Numeric (3 / 5)), a_usdcSize := Some (Numeric 57),
     a_timestamp := Some (StrVal ''1700090000''), a_transactionHash := Some ''0x02'' \<rparr>"

definition activity_redeem :: activity where
  "activity_redeem = \<lparr> a_type = Some ''REDEEM'', a_conditionId = Some ''0xabc'',
     a_asset = None, a_side = None, a_size = Some (Numeric 100),
     a_price = None, a_usdcSize = Some (Numeric 50),
     a_timestamp = Some (IntVal 1700200000), a_outcome = None,
     a_title = Some ''Rain?'', a_slug = Some ''weather-rain'',
     a_transactionHash = Some ''0x03'' \<rparr>"

definition activity_redeem_only :: activity where
  "activity_redeem_only = activity_redeem \<lparr> a_conditionId := Some ''0xdef'',
     a_usdcSize := Some (Numeric 7), a_timestamp := Some (IntVal 1700100000),
     a_title := Some ''Snow?'', a_slug := Some ''weather-snow'',
     a_transactionHash := Some ''0x04'' \<rparr>"

text \<open>A Gamma API that answers with the one market, its Yes outcome priced at \<open>q\<close>.\<close>

definition example_gamma :: "decimal \<Rightarrow> string list \<Rightarrow> error + market_info list" where
  "example_gamma q ids =
     Inr [\<lparr> m_conditionId = Some ''0xabc'', m_outcomes = Items [''Yes'', ''No''],
            m_outcomePrices = Items [Numeric q, Numeric (1 - q)] \<rparr>]"

(*THEOREMS*)
section \<open>Basic facts\<close>

lemma bind_Inr_iff: "bind r f = Inr y \<longleftrightarrow> (\<exists>v. r = Inr v \<and> f v = Inr y)"
  by (cases r) (simp_all add: bind_def)

lemma bind_Inr [simp]: "bind (Inr v) f = f v"
  by (simp add: bind_def)

lemma bind_Inl [simp]: "bind (Inl e) f = Inl e"
  by (simp add: bind_def)

section \<open>Lists of results, dicts, maxima and sorting\<close>

lemma mapM_Inr_iff:
  "mapM f xs = Inr ys \<longleftrightarrow> list_all2 (\<lambda>x y. f x = Inr y) xs ys"
proof (induction xs arbitrary: ys)
  case Nil
  then show ?case by auto
next
  case (Cons x xs)
  show ?case
    by (cases ys) (auto simp: bind_Inr_iff Cons.IH)
qed

lemma list_all2_right:
  "list_all2 P xs ys \<Longrightarrow> y \<in> set ys \<Longrightarrow> \<exists>x\<in>set xs. P x y"
  by (induction rule: list_all2_induct) auto

lemma mapM_total:
  "\<forall>x\<in>set xs. \<exists>y. f x = Inr y \<Longrightarrow> \<exists>ys. mapM f xs = Inr ys"
  by (induction xs) auto

lemma mapM_length: "mapM f xs = Inr ys \<Longrightarrow> length ys = length xs"
  by (simp add: mapM_Inr_iff list_all2_lengthD)

subsection \<open>Building a dict of lists\<close>

lemma map_of_dd_update:
  "map_of (dd_update d k f b) =
     (map_of b)(k \<mapsto> f (case map_of b k of None \<Rightarrow> d | Some v \<Rightarrow> v))"
  by (induction b) (auto simp: fun_eq_iff)

lemma keys_dd_update:
  "map fst (dd_update d k f b) = (if k \<in> fst ` set b then map fst b else map fst b @ [k])"
  by (induction b) (fastforce simp: image_iff)+

lemma keyset_dd_update: "fst ` set (dd_update d k f b) = insert k (fst ` set b)"
proof -
  have "set (map fst (dd_update d k f b)) = insert k (set (map fst b))"
    by (simp add: keys_dd_update insert_absorb)
  then show ?thesis by simp
qed

lemma distinct_dd_update:
  "distinct (map fst b) \<Longrightarrow> distinct (map fst (dd_update d k f b))"
  by (simp add: keys_dd_update)

lemma collect_distinct:
  "distinct (map fst acc) \<Longrightarrow> distinct (map fst (collect key xs acc))"
  unfolding collect_def by (induction xs arbitrary: acc) (simp_all add: distinct_dd_update)

lemma collect_keys:
  "set (map fst (collect key xs acc)) = set (map fst acc) \<union> key ` set xs"
  unfolding collect_def by (induction xs arbitrary: acc) (simp_all add: keyset_dd_update)

lemma collect_map_of:
  "map_of (collect key xs acc) k =
     (if map_of acc k = None \<and> filter (\<lambda>x. key x = k) xs = [] then None
      else Some ((case map_of acc k of None \<Rightarrow> [] | Some v \<Rightarrow> v) @ filter (\<lambda>x. key x = k) xs))"
  unfolding collect_def
proof (induction xs arbitrary: acc)
  case Nil
  then show ?case by (auto split: option.splits)
next
  case (Cons x xs)
  show ?case
    by (simp add: Cons.IH map_of_dd_update split: option.splits)
qed

lemma mset_concat_dd_update:
  "mset (concat (map snd (dd_update [] k (\<lambda>vs. vs @ [x]) b))) = mset (concat (map snd b)) + {#x#}"
  by (induction b) auto

lemma collect_mset:
  "mset (concat (map snd (collect key xs acc))) = mset (concat (map snd acc)) + mset xs"
  unfolding collect_def
  by (induction xs arbitrary: acc) (simp_all add: mset_concat_dd_update)

lemma collect_entry:
  assumes "(k, vs) \<in> set (collect key xs [])"
  shows "vs = filter (\<lambda>x. key x = k) xs \<and> vs \<noteq> []"
proof -
  have "distinct (map fst (collect key xs []))" by (simp add: collect_distinct)
  with assms have "map_of (collect key xs []) k = Some vs" by simp
  then show ?thesis by (simp add: collect_map_of split: if_splits)
qed


subsection \<open>\<^verbatim>\<open>max\<close> with a key\<close>

lemma max_loop_mem: "max_loop key best bk xs = Inr x \<Longrightarrow> x = best \<or> x \<in> set xs"
  by (induction xs arbitrary: best bk) (auto simp: bind_Inr_iff split: if_splits)

lemma max_loop_total:
  "\<forall>x\<in>set xs. \<exists>k. key x = Inr k \<Longrightarrow> \<exists>y. max_loop key best bk xs = Inr y"
  by (induction xs arbitrary: best bk) auto

lemma max_loop_greatest:
  "max_loop key best bk xs = Inr x \<Longrightarrow> key best = Inr bk \<Longrightarrow>
   \<exists>k. key x = Inr k \<and> bk \<le> k \<and> (\<forall>y\<in>set xs. \<exists>j. key y = Inr j \<and> j \<le> k)"
proof (induction xs arbitrary: best bk)
  case Nil
  then show ?case by simp
next
  case (Cons y ys)
  from Cons.prems(1) obtain j where j: "key y = Inr j"
    by (auto simp: bind_Inr_iff)
  show ?case
  proof (cases "bk < j")
    case True
    with Cons.prems(1) j have "max_loop key y j ys = Inr x" by simp
    from Cons.IH [OF this j] True j show ?thesis by auto
  next
    case False
    with Cons.prems(1) j have "max_loop key best bk ys = Inr x" by simp
    from Cons.IH [OF this Cons.prems(2)] False j show ?thesis by auto
  qed
qed

lemma py_max_key_mem: "py_max_key key xs = Inr x \<Longrightarrow> x \<in> set xs"
  by (auto simp: py_max_key_def bind_Inr_iff split: list.splits dest: max_loop_mem)

lemma py_max_key_total:
  "xs \<noteq> [] \<Longrightarrow> \<forall>x\<in>set xs. \<exists>k. key x = Inr k \<Longrightarrow> \<exists>y. py_max_key key xs = Inr y"
  by (cases xs) (auto simp: py_max_key_def intro: max_loop_total)

lemma py_max_key_greatest:
  assumes "py_max_key key xs = Inr x"
  shows "\<exists>k. key x = Inr k \<and> (\<forall>y\<in>set xs. \<exists>j. key y = Inr j \<and> j \<le> k)"
proof (cases xs)
  case Nil
  with assms show ?thesis by (simp add: py_max_key_def)
next
  case (Cons y ys)
  with assms obtain j where j: "key y = Inr j" and m: "max_loop key y j ys = Inr x"
    by (auto simp: py_max_key_def bind_Inr_iff)
  from max_loop_greatest [OF m j] j Cons show ?thesis by auto
qed

subsection \<open>\<^verbatim>\<open>sorted\<close> with a key, newest first\<close>

lemma sorted_desc_mset: "sorted_desc key xs = Inr ys \<Longrightarrow> mset ys = mset xs"
proof -
  assume "sorted_desc key xs = Inr ys"
  then obtain ks where ks: "mapM key xs = Inr ks"
    and ys: "ys = map snd (sort_key (\<lambda>p. - fst p) (zip ks xs))"
    by (auto simp: sorted_desc_def bind_Inr_iff)
  have "length ks = length xs" using ks by (rule mapM_length)
  then have "map snd (zip ks xs) = xs" by simp
  moreover have "mset ys = mset (map snd (zip ks xs))"
    unfolding ys by simp
  ultimately show ?thesis by simp
qed

lemma list_all2_pairs:
  "\<forall>p\<in>set zs. key (snd p) = Inr (fst p) \<Longrightarrow>
   list_all2 (\<lambda>x y. key x = Inr y) (map snd zs) (map fst zs)"
  by (induction zs) simp_all

lemma sorted_rev_uminus: "sorted (map uminus (ks :: int list)) \<Longrightarrow> sorted (rev ks)"
  by (induction ks) (auto simp: sorted_append)

lemma sorted_desc_keys:
  assumes "sorted_desc key xs = Inr ys"
  shows "\<exists>ks. mapM key ys = Inr ks \<and> sorted (rev ks)"
proof -
  from assms obtain ks where ks: "mapM key xs = Inr ks"
    and ys: "ys = map snd (sort_key (\<lambda>p. - fst p) (zip ks xs))"
    by (auto simp: sorted_desc_def bind_Inr_iff)
  let ?zs = "sort_key (\<lambda>p. - fst p) (zip ks xs)"
  have "\<forall>p\<in>set (zip ks xs). key (snd p) = Inr (fst p)"
    using ks unfolding mapM_Inr_iff
    by (auto simp: list_all2_conv_all_nth in_set_zip)
  then have all: "\<forall>p\<in>set ?zs. key (snd p) = Inr (fst p)" by simp
  have "list_all2 (\<lambda>x y. key x = Inr y) (map snd ?zs) (map fst ?zs)"
    using all by (intro list_all2_pairs) simp
  then have 1: "mapM key ys = Inr (map fst ?zs)"
    unfolding ys mapM_Inr_iff .
  have "sorted (map (\<lambda>p. - fst p) ?zs)" by (rule sorted_sort_key)
  then have "sorted (map uminus (map fst ?zs))" by (simp add: comp_def)
  then have 2: "sorted (rev (map fst ?zs))"
    by (rule sorted_rev_uminus)
  from 1 2 show ?thesis by blast
qed

lemma sorted_desc_total:
  "\<forall>x\<in>set xs. \<exists>k. key x = Inr k \<Longrightarrow> \<exists>ys. sorted_desc key xs = Inr ys"
  using mapM_total [of xs key] by (auto simp: sorted_desc_def)

section \<open>Daily bucketing keeps the total\<close>







section \<open>Grouping of trades\<close>

lemma make_group_fields:
  assumes "make_group ((m, oc), fills) = Inr g"
  shows "g_market g = m \<and> g_outcome g = oc \<and> fills \<noteq> [] \<and>
     avg_buy_price g =
       (let buys = filter (\<lambda>t. side t = ''BUY'') fills;
            total_size = sum_list (map trade_size buys);
            total_value = sum_list (map (\<lambda>t. price t * trade_size t) buys)
        in if total_size \<noteq> 0 then total_value / total_size else 0) \<and>
     total_bought g = sum_list (map (\<lambda>t. price t * trade_size t) (filter (\<lambda>t. side t = ''BUY'') fills)) \<and>
     pnl g = sum_list (map trade_pnl fills) \<and>
     (\<exists>t\<in>set fills. last_match_time g = match_time t)"
proof -
  from assms obtain latest where l: "py_max_key (\<lambda>t. py_int (match_time t)) fills = Inr latest"
    by (auto simp: make_group_def bind_Inr_iff)
  then have mem: "latest \<in> set fills" by (rule py_max_key_mem)
  then obtain first rest where f: "fills = first # rest" by (cases fills) auto
  from assms l show ?thesis
    unfolding f [symmetric] using mem
    by (subst (asm) make_group_def) (auto simp: Let_def f)
qed

lemma make_group_key:
  "make_group ((m, oc), fills) = Inr g \<Longrightarrow> group_key g = (m, oc)"
  by (drule make_group_fields) simp

lemma make_group_time:
  "make_group ((m, oc), fills) = Inr g \<Longrightarrow> \<exists>t\<in>set fills. last_match_time g = match_time t"
  by (drule make_group_fields) (elim conjE)

lemma make_group_total:
  assumes "fills \<noteq> []" "\<forall>t\<in>set fills. \<exists>n. py_int (match_time t) = Inr n"
  shows "\<exists>g. make_group (k, fills) = Inr g"
proof -
  from py_max_key_total [OF assms(1), of "\<lambda>t. py_int (match_time t)"] assms(2)
  obtain latest where "py_max_key (\<lambda>t. py_int (match_time t)) fills = Inr latest" by auto
  with assms(1) show ?thesis
    by (cases k; cases fills) (simp_all add: make_group_def Let_def)
qed

lemma trade_buckets_entry:
  "(k, fills) \<in> set (trade_buckets trades) \<Longrightarrow>
     fills = filter (\<lambda>t. trade_key t = k) trades \<and> fills \<noteq> []"
  unfolding trade_buckets_def by (rule collect_entry)

lemma group_trades_Inr:
  assumes "group_trades trades = Inr groups"
  obtains gs where "list_all2 (\<lambda>b g. make_group b = Inr g) (trade_buckets trades) gs"
    and "sorted_desc (\<lambda>g. py_int (last_match_time g)) gs = Inr groups"
    and "mset groups = mset gs"
  using assms
  by (auto simp: group_trades_def bind_Inr_iff mapM_Inr_iff dest: sorted_desc_mset)

lemma made_keys:
  "list_all2 (\<lambda>b g. make_group b = Inr g) bs gs \<Longrightarrow> map group_key gs = map fst bs"
proof (induction rule: list_all2_induct)
  case Nil
  then show ?case by simp
next
  case (Cons b bs g gs)
  obtain m oc fills where b: "b = ((m, oc), fills)" by (cases b) auto
  from Cons.hyps(1) have "group_key g = (m, oc)"
    unfolding b by (rule make_group_key)
  with Cons.IH show ?case by (simp add: b)
qed

lemma group_member:
  assumes "group_trades trades = Inr groups" and "g \<in> set groups"
  shows "make_group (group_key g, filter (\<lambda>t. trade_key t = group_key g) trades) = Inr g"
proof -
  from assms(1) obtain gs where
    gs: "list_all2 (\<lambda>b g. make_group b = Inr g) (trade_buckets trades) gs"
    and m: "mset groups = mset gs"
    by (rule group_trades_Inr)
  from m assms(2) have "g \<in> set gs" by (metis mset_eq_setD)
  from list_all2_right [OF gs this]
  obtain b where b: "b \<in> set (trade_buckets trades)" and mk: "make_group b = Inr g"
    by auto
  obtain m oc fills where bb: "b = ((m, oc), fills)" by (cases b) auto
  from mk have k: "group_key g = (m, oc)"
    unfolding bb by (rule make_group_key)
  from b have "fills = filter (\<lambda>t. trade_key t = (m, oc)) trades"
    unfolding bb by (auto dest: trade_buckets_entry)
  with mk k bb show ?thesis by simp
qed

lemma group_trades_total:
  assumes "\<forall>t\<in>set trades. \<exists>n. py_int (match_time t) = Inr n"
  shows "\<exists>groups. group_trades trades = Inr groups"
proof -
  have "\<forall>b\<in>set (trade_buckets trades). \<exists>g. make_group b = Inr g"
  proof
    fix b assume b: "b \<in> set (trade_buckets trades)"
    obtain k fills where bb: "b = (k, fills)" by (cases b) auto
    from b have "fills = filter (\<lambda>t. trade_key t = k) trades \<and> fills \<noteq> []"
      unfolding bb by (rule trade_buckets_entry)
    then have "fills \<noteq> []" and "set fills \<subseteq> set trades" by auto
    with assms have "\<forall>t\<in>set fills. \<exists>n. py_int (match_time t) = Inr n"
      by blast
    with \<open>fills \<noteq> []\<close> show "\<exists>g. make_group b = Inr g"
      unfolding bb by (rule make_group_total)
  qed
  then have "\<exists>gs. mapM make_group (trade_buckets trades) = Inr gs"
    by (rule mapM_total)
  then obtain gs where gs: "mapM make_group (trade_buckets trades) = Inr gs" ..
  have "\<forall>g\<in>set gs. \<exists>n. py_int (last_match_time g) = Inr n"
  proof
    fix g assume g: "g \<in> set gs"
    from gs have "list_all2 (\<lambda>b g. make_group b = Inr g) (trade_buckets trades) gs"
      by (simp add: mapM_Inr_iff)
    from list_all2_right [OF this g]
    obtain b where b: "b \<in> set (trade_buckets trades)" and mk: "make_group b = Inr g"
      by auto
    obtain m oc fills where bb: "b = ((m, oc), fills)" by (cases b) auto
    from mk have "\<exists>t\<in>set fills. last_match_time g = match_time t"
      unfolding bb by (rule make_group_time)
    then obtain t where "t \<in> set fills" "last_match_time g = match_time t" ..
    moreover from b have "set fills \<subseteq> set trades"
      unfolding bb by (auto dest: trade_buckets_entry)
    ultimately show "\<exists>n. py_int (last_match_time g) = Inr n" using assms by auto
  qed
  then have "\<exists>groups. sorted_desc (\<lambda>g. py_int (last_match_time g)) gs = Inr groups"
    by (rule sorted_desc_total)
  then obtain groups where "sorted_desc (\<lambda>g. py_int (last_match_time g)) gs = Inr groups" ..
  with gs show ?thesis by (simp add: group_trades_def)
qed

lemma sum_members:
  assumes "\<forall>b\<in>set bs. snd b = F (fst b)"
  shows "(\<Sum>k\<leftarrow>map fst bs. mset (F k)) = mset (concat (map snd bs))"
  using assms by (induction bs) auto

lemma sum_list_mset_cong:
  fixes f :: "'a \<Rightarrow> 'b::comm_monoid_add"
  assumes "mset xs = mset ys"
  shows "(\<Sum>x\<leftarrow>xs. f x) = (\<Sum>y\<leftarrow>ys. f y)"
proof -
  have "sum_mset (mset (map f xs)) = sum_mset (mset (map f ys))"
    using assms by simp
  then show ?thesis by (simp only: sum_mset_sum_list)
qed

text \<open>
  Claim C2. For every list of trades with integer \<^verbatim>\<open>match_time\<close>, in any order
  \<open>trades'\<close>, \<^verbatim>\<open>group_trades\<close> returns one group per distinct (market, outcome) pair
  of the input: the keys of the groups are distinct and are exactly the keys of the
  trades, so every trade has exactly one group with its key; each group is built from
  exactly the trades that carry its key, and these member lists together are the input,
  each trade counted once.
\<close>

theorem group_trades_partition:
  assumes wf: "\<forall>t\<in>set trades. \<exists>n. py_int (match_time t) = Inr n"
    and perm: "mset trades' = mset trades"
  shows "\<exists>groups. group_trades trades' = Inr groups \<and>
    distinct (map group_key groups) \<and>
    set (map group_key groups) = trade_key ` set trades \<and>
    length groups = card (trade_key ` set trades) \<and>
    (\<forall>t\<in>set trades. \<exists>!g. g \<in> set groups \<and> group_key g = trade_key t) \<and>
    (\<forall>g\<in>set groups.
       make_group (group_key g, filter (\<lambda>t. trade_key t = group_key g) trades') = Inr g) \<and>
    (\<Sum>g\<leftarrow>groups. mset (filter (\<lambda>t. trade_key t = group_key g) trades')) = mset trades"
proof -
  let ?B = "trade_buckets trades'"
  let ?F = "\<lambda>k. filter (\<lambda>t. trade_key t = k) trades'"
  from perm have sets: "set trades' = set trades" by (rule mset_eq_setD)
  with wf have "\<forall>t\<in>set trades'. \<exists>n. py_int (match_time t) = Inr n" by simp
  then have "\<exists>groups. group_trades trades' = Inr groups" by (rule group_trades_total)
  then obtain groups where groups: "group_trades trades' = Inr groups" ..
  from groups obtain gs where
    gs: "list_all2 (\<lambda>b g. make_group b = Inr g) ?B gs" and m: "mset groups = mset gs"
    by (rule group_trades_Inr)
  from gs have keys: "map group_key gs = map fst ?B" by (rule made_keys)
  from m have mk: "mset (map group_key groups) = mset (map fst ?B)"
    unfolding keys [symmetric] by simp
  have dB: "distinct (map fst ?B)"
    unfolding trade_buckets_def by (rule collect_distinct) simp
  from mset_eq_imp_distinct_iff [OF mk] dB have d: "distinct (map group_key groups)"
    by blast
  have "set (map fst ?B) = trade_key ` set trades'"
    unfolding trade_buckets_def collect_keys by simp
  with mk sets have s: "set (map group_key groups) = trade_key ` set trades"
    by (metis mset_eq_setD)
  from d s have l: "length groups = card (trade_key ` set trades)"
    by (metis distinct_card length_map)
  have u: "\<forall>t\<in>set trades. \<exists>!g. g \<in> set groups \<and> group_key g = trade_key t"
  proof
    fix t assume "t \<in> set trades"
    with s have "trade_key t \<in> set (map group_key groups)" by blast
    then obtain g where g: "g \<in> set groups" "group_key g = trade_key t" by auto
    from d have inj: "inj_on group_key (set groups)" by (simp add: distinct_map)
    show "\<exists>!g. g \<in> set groups \<and> group_key g = trade_key t"
    proof (rule ex1I)
      from g show "g \<in> set groups \<and> group_key g = trade_key t" by blast
    next
      fix h assume h: "h \<in> set groups \<and> group_key h = trade_key t"
      with g(2) have "group_key h = group_key g" by simp
      from inj_onD [OF inj this] h g(1) show "h = g" by blast
    qed
  qed
  have mem: "\<forall>g\<in>set groups. make_group (group_key g, ?F (group_key g)) = Inr g"
  proof
    fix g assume "g \<in> set groups"
    with groups show "make_group (group_key g, ?F (group_key g)) = Inr g"
      by (rule group_member)
  qed
  have "\<forall>b\<in>set ?B. snd b = ?F (fst b)"
    by (auto dest: trade_buckets_entry)
  then have "(\<Sum>k\<leftarrow>map fst ?B. mset (?F k)) = mset (concat (map snd ?B))"
    by (rule sum_members)
  also have "\<dots> = mset trades'"
    unfolding trade_buckets_def by (simp add: collect_mset)
  finally have "(\<Sum>k\<leftarrow>map fst ?B. mset (?F k)) = mset trades" using perm by simp
  moreover have "(\<Sum>g\<leftarrow>groups. mset (?F (group_key g))) = (\<Sum>k\<leftarrow>map group_key groups. mset (?F k))"
    by (simp add: comp_def)
  moreover have "(\<Sum>k\<leftarrow>map group_key groups. mset (?F k)) = (\<Sum>k\<leftarrow>map fst ?B. mset (?F k))"
    using mk by (rule sum_list_mset_cong)
  ultimately have p: "(\<Sum>g\<leftarrow>groups. mset (?F (group_key g))) = mset trades" by simp
  show ?thesis
    by (intro exI [of _ groups] conjI groups d s l u mem p)
qed

theorem group_trades_partition_witness:
  "\<exists>groups. group_trades [example_sell, example_buy] = Inr groups \<and>
     distinct (map group_key groups) \<and>
     set (map group_key groups) = {(''0xabc'', ''Yes'')} \<and>
     length groups = 1"
proof -
  have "py_int (match_time example_buy) = Inr 1700000000"
    unfolding example_buy_def by code_simp
  moreover have "py_int (match_time example_sell) = Inr 1700090000"
    unfolding example_sell_def by code_simp
  ultimately have wf: "\<forall>t\<in>set [example_buy, example_sell]. \<exists>n. py_int (match_time t) = Inr n"
    by simp
  have perm: "mset [example_sell, example_buy] = mset [example_buy, example_sell]"
    by simp
  have keys: "trade_key ` set [example_buy, example_sell] = {(''0xabc'', ''Yes'')}"
    by (simp add: example_buy_def example_sell_def)
  from group_trades_partition [OF wf perm] show ?thesis
    unfolding keys by auto
qed




lemma sorted_desc_descending:
  assumes "sorted_desc key xs = Inr ys"
  shows "\<exists>ks. mapM key ys = Inr ks \<and> sorted_wrt (\<ge>) ks"
proof -
  from sorted_desc_keys [OF assms] obtain ks where "mapM key ys = Inr ks" "sorted (rev ks)"
    by blast
  then show ?thesis by (auto simp: sorted_wrt_rev)
qed

text \<open>
  Claim C7. The output of \<^verbatim>\<open>group_trades\<close> and the output of \<^verbatim>\<open>get_trade_groups\<close> are
  in descending order of \<^verbatim>\<open>int(last_match_time)\<close>; groups with the times 100, 300 and
  200 come out in the order 300, 200, 100.
\<close>

theorem trade_groups_sorted:
  "(\<forall>groups. group_trades trades = Inr groups \<longrightarrow>
      (\<exists>ks. mapM (\<lambda>g. py_int (last_match_time g)) groups = Inr ks \<and> sorted_wrt (\<ge>) ks)) \<and>
   (\<forall>groups. get_trade_groups activities = Inr groups \<longrightarrow>
      (\<exists>ks. mapM (\<lambda>g. py_int (last_match_time g)) groups = Inr ks \<and> sorted_wrt (\<ge>) ks)) \<and>
   (\<forall>a b c :: TradeGroup. py_int (last_match_time a) = Inr 100 \<and> py_int (last_match_time b) = Inr 300 \<and>
        py_int (last_match_time c) = Inr 200 \<longrightarrow>
      sorted_desc (\<lambda>g. py_int (last_match_time g)) [a, b, c] = Inr [b, c, a])"
proof (intro conjI allI impI)
  fix groups assume "group_trades trades = Inr groups"
  then obtain gs where "sorted_desc (\<lambda>g. py_int (last_match_time g)) gs = Inr groups"
    by (rule group_trades_Inr)
  then show "\<exists>ks. mapM (\<lambda>g. py_int (last_match_time g)) groups = Inr ks \<and> sorted_wrt (\<ge>) ks"
    by (rule sorted_desc_descending)
next
  fix groups assume "get_trade_groups activities = Inr groups"
  then obtain gs where "sorted_desc (\<lambda>g. py_int (last_match_time g)) gs = Inr groups"
    by (auto simp: get_trade_groups_def reconcile_def bind_Inr_iff)
  then show "\<exists>ks. mapM (\<lambda>g. py_int (last_match_time g)) groups = Inr ks \<and> sorted_wrt (\<ge>) ks"
    by (rule sorted_desc_descending)
next
  fix a b c :: TradeGroup
  assume "py_int (last_match_time a) = Inr 100 \<and> py_int (last_match_time b) = Inr 300 \<and>
        py_int (last_match_time c) = Inr 200"
  then show "sorted_desc (\<lambda>g. py_int (last_match_time g)) [a, b, c] = Inr [b, c, a]"
    by (simp add: sorted_desc_def)
qed

theorem trade_groups_sorted_witness:
  "(\<exists>groups ks. group_trades [fill_at ''m1'' ''100'', fill_at ''m2'' ''300'', fill_at ''m3'' ''200''] = Inr groups \<and>
      map last_match_time groups = [''300'', ''200'', ''100''] \<and>
      mapM (\<lambda>g. py_int (last_match_time g)) groups = Inr ks \<and> sorted_wrt (\<ge>) ks) \<and>
   (\<exists>groups ks. get_trade_groups [activity_buy, activity_sell, activity_redeem, activity_redeem_only] = Inr groups \<and>
      map last_match_time groups = [''1700200000'', ''1700100000''] \<and>
      mapM (\<lambda>g. py_int (last_match_time g)) groups = Inr ks \<and> sorted_wrt (\<ge>) ks)"
proof -
  let ?trades = "[fill_at ''m1'' ''100'', fill_at ''m2'' ''300'', fill_at ''m3'' ''200'']"
  let ?acts = "[activity_buy, activity_sell, activity_redeem, activity_redeem_only]"
  obtain g1 where g1: "group_trades ?trades = Inr g1"
    and t1: "map last_match_time g1 = [''300'', ''200'', ''100'']"
  proof
    show "group_trades ?trades = Inr (projr (group_trades ?trades))" by code_simp
    show "map last_match_time (projr (group_trades ?trades)) = [''300'', ''200'', ''100'']"
      by code_simp
  qed
  obtain g2 where g2: "get_trade_groups ?acts = Inr g2"
    and t2: "map last_match_time g2 = [''1700200000'', ''1700100000'']"
  proof
    show "get_trade_groups ?acts = Inr (projr (get_trade_groups ?acts))" by code_simp
    show "map last_match_time (projr (get_trade_groups ?acts)) = [''1700200000'', ''1700100000'']"
      by code_simp
  qed
  note inst = trade_groups_sorted [of ?trades ?acts]
  from inst g1 obtain k1 where k1: "mapM (\<lambda>g. py_int (last_match_time g)) g1 = Inr k1"
    and s1: "sorted_wrt (\<ge>) k1"
    by blast
  from inst g2 obtain k2 where k2: "mapM (\<lambda>g. py_int (last_match_time g)) g2 = Inr k2"
    and s2: "sorted_wrt (\<ge>) k2"
    by blast
  show ?thesis
    by (intro conjI exI) (rule g1 t1 k1 s1 g2 t2 k2 s2)+
qed

section \<open>Redemptions as sales\<close>




section \<open>Open positions\<close>


lemma current_price_empty_info [simp]: "current_price_for_outcome empty_info outc = 0"
  by (simp add: current_price_for_outcome_def price_try_def empty_info_def)



lemma getitem_Inr_iff [simp]: "getitem k entry = Inr v \<longleftrightarrow> entry = Some v"
  by (cases entry) (simp_all add: getitem_def)

lemma getitem_Some [simp]: "getitem k (Some v) = Inr v"
  by (simp add: getitem_def)

lemma getitem_None [simp]: "getitem k None = Inl (KeyError k)"
  by (simp add: getitem_def)

lemma redeemed_of_set:
  "redeemed_of acts = Inr r \<Longrightarrow>
   set r = {c. \<exists>a\<in>set acts. is_redeem a \<and> a_conditionId a = Some c}"
proof (induction acts arbitrary: r)
  case Nil
  then show ?case by simp
next
  case (Cons a acts)
  from Cons.prems obtain ty where ty: "a_type a = Some ty"
    by (auto simp: bind_Inr_iff)
  show ?case
  proof (cases "ty = ''REDEEM''")
    case True
    with Cons.prems ty obtain cid more where
      "a_conditionId a = Some cid" "redeemed_of acts = Inr more" "r = cid # more"
      by (auto simp: bind_Inr_iff)
    with Cons.IH [of more] ty True show ?thesis by auto
  next
    case False
    with Cons.prems ty have "redeemed_of acts = Inr r" by simp
    with Cons.IH [of r] ty False show ?thesis by auto
  qed
qed

lemma fills_loop_collect:
  "fills_loop acts b m = Inr (b', m') \<Longrightarrow>
   b' = collect fill_key (filter is_trade acts) b \<and>
   (\<forall>a\<in>set acts. is_trade a \<longrightarrow> a_conditionId a \<noteq> None \<and> a_outcome a \<noteq> None) \<and>
   (\<forall>c. m c \<noteq> None \<longrightarrow> m' c \<noteq> None) \<and>
   (\<forall>a\<in>set acts. is_trade a \<longrightarrow> m' (the (a_conditionId a)) \<noteq> None)"
proof (induction acts arbitrary: b m)
  case Nil
  then show ?case by (simp add: collect_def)
next
  case (Cons a acts)
  from Cons.prems obtain ty where ty: "a_type a = Some ty"
    by (auto simp: bind_Inr_iff)
  show ?case
  proof (cases "ty = ''TRADE''")
    case False
    with Cons.prems ty have "fills_loop acts b m = Inr (b', m')" by simp
    from Cons.IH [OF this] ty False show ?thesis by simp
  next
    case True
    with Cons.prems ty obtain cid outc where
      co: "a_conditionId a = Some cid" "a_outcome a = Some outc"
      by (auto simp: bind_Inr_iff)
    let ?b = "dd_update [] (cid, outc) (\<lambda>fills. fills @ [a]) b"
    show ?thesis
    proof (cases "m cid = None")
      case None: True
      with Cons.prems ty \<open>ty = ''TRADE''\<close> co obtain t s where
        rec: "fills_loop acts ?b (m(cid \<mapsto> (t, s))) = Inr (b', m')"
        by (auto simp: bind_Inr_iff Let_def)
      from Cons.IH [OF rec] ty \<open>ty = ''TRADE''\<close> co show ?thesis
        by (auto simp: collect_def)
    next
      case False
      with Cons.prems ty \<open>ty = ''TRADE''\<close> co have
        rec: "fills_loop acts ?b m = Inr (b', m')"
        by (auto simp: bind_Inr_iff Let_def)
      from Cons.IH [OF rec] ty \<open>ty = ''TRADE''\<close> co False show ?thesis
        by (auto simp: collect_def)
    qed
  qed
qed

lemma with_side_filter:
  "with_side s fills = Inr r \<Longrightarrow> r = filter (\<lambda>f. a_side f = Some s) fills"
  by (induction fills arbitrary: r) (auto simp: bind_Inr_iff)

lemma with_side_total:
  "\<forall>f\<in>set fills. a_side f \<noteq> None \<Longrightarrow> \<exists>r. with_side s fills = Inr r"
  by (induction fills) (auto simp: getitem_def)

lemma open_entry_Inr:
  assumes "open_entry redeemed meta ((cid, outc), fills) = Inr es" and "e \<in> set es"
  shows "es = [e] \<and> cid \<notin> set redeemed \<and> o_conditionId e = cid \<and> o_outcome e = outc \<and>
    0 < o_net_shares e \<and>
    (\<exists>bs ss vs latest.
       mapM size_of (filter (\<lambda>f. a_side f = Some ''BUY'') fills) = Inr bs \<and>
       mapM size_of (filter (\<lambda>f. a_side f = Some ''SELL'') fills) = Inr ss \<and>
       mapM value_of (filter (\<lambda>f. a_side f = Some ''BUY'') fills) = Inr vs \<and>
       py_max timestamp_of (filter (\<lambda>f. a_side f = Some ''BUY'') fills) = Inr latest \<and>
       o_net_shares e = sum_list bs - sum_list ss \<and>
       o_total_bought e = sum_list vs \<and>
       o_avg_buy_price e = (if sum_list bs \<noteq> 0 then sum_list vs / sum_list bs else 0) \<and>
       o_last_buy_time e = py_str latest)"
proof -
  from assms have nr: "cid \<notin> set redeemed"
    by (auto simp: open_entry_def)
  with assms(1) obtain buys sells bs ss where
    buys: "with_side ''BUY'' fills = Inr buys" and sells: "with_side ''SELL'' fills = Inr sells"
    and bs: "mapM size_of buys = Inr bs" and ss: "mapM size_of sells = Inr ss"
    and rest: "(let total_buy_size = sum_list bs;
                total_sell_size = sum_list ss;
                net = total_buy_size - total_sell_size
            in if net \<le> 0 then Inr []
               else
                 bind (mapM value_of buys) (\<lambda>buy_values.
                   let total_buy_value = sum_list buy_values;
                       avg_price = (if total_buy_size \<noteq> 0
                                    then total_buy_value / total_buy_size else 0)
                   in bind (py_max timestamp_of buys) (\<lambda>latest.
                      bind (getitem cid (meta cid)) (\<lambda>m.
                        Inr [\<lparr> o_conditionId = cid, o_outcome = outc,
                               o_avg_buy_price = avg_price, o_net_shares = net,
                               o_total_bought = total_buy_value,
                               o_last_buy_time = py_str latest,
                               o_title = fst m, o_slug = snd m \<rparr>])))) = Inr es"
    by (auto simp: open_entry_def bind_Inr_iff)
  from rest assms(2) have net: "0 < sum_list bs - sum_list ss"
    by (auto simp: Let_def split: if_splits)
  with rest obtain vs latest m where
    vs: "mapM value_of buys = Inr vs" and latest: "py_max timestamp_of buys = Inr latest"
    and es: "es = [\<lparr> o_conditionId = cid, o_outcome = outc,
                     o_avg_buy_price = (if sum_list bs \<noteq> 0 then sum_list vs / sum_list bs else 0),
                     o_net_shares = sum_list bs - sum_list ss,
                     o_total_bought = sum_list vs,
                     o_last_buy_time = py_str latest,
                     o_title = fst m, o_slug = snd m \<rparr>]"
    by (auto simp: Let_def bind_Inr_iff)
  from buys have b: "buys = filter (\<lambda>f. a_side f = Some ''BUY'') fills" by (rule with_side_filter)
  from sells have s: "sells = filter (\<lambda>f. a_side f = Some ''SELL'') fills" by (rule with_side_filter)
  from assms(2) es have e: "e = \<lparr> o_conditionId = cid, o_outcome = outc,
                     o_avg_buy_price = (if sum_list bs \<noteq> 0 then sum_list vs / sum_list bs else 0),
                     o_net_shares = sum_list bs - sum_list ss,
                     o_total_bought = sum_list vs,
                     o_last_buy_time = py_str latest,
                     o_title = fst m, o_slug = snd m \<rparr>" by simp
  have "\<exists>bs ss vs latest.
       mapM size_of (filter (\<lambda>f. a_side f = Some ''BUY'') fills) = Inr bs \<and>
       mapM size_of (filter (\<lambda>f. a_side f = Some ''SELL'') fills) = Inr ss \<and>
       mapM value_of (filter (\<lambda>f. a_side f = Some ''BUY'') fills) = Inr vs \<and>
       py_max timestamp_of (filter (\<lambda>f. a_side f = Some ''BUY'') fills) = Inr latest \<and>
       o_net_shares e = sum_list bs - sum_list ss \<and>
       o_total_bought e = sum_list vs \<and>
       o_avg_buy_price e = (if sum_list bs \<noteq> 0 then sum_list vs / sum_list bs else 0) \<and>
       o_last_buy_time e = py_str latest"
    using bs ss vs latest unfolding b s e
    by (intro exI [of _ bs] exI [of _ ss] exI [of _ vs] exI [of _ latest]) simp
  moreover from es e have "es = [e]" by simp
  moreover from e net have "0 < o_net_shares e" "o_conditionId e = cid" "o_outcome e = outc"
    by simp_all
  ultimately show ?thesis using nr by blast
qed

lemma positions_loop_mem:
  "p \<in> set (positions_loop mp entries) \<Longrightarrow>
   \<exists>e\<in>set entries. p_market p = o_conditionId e \<and> p_outcome p = o_outcome e \<and>
      net_shares p = o_net_shares e \<and> p_avg_buy_price p = o_avg_buy_price e \<and>
      last_buy_time p = o_last_buy_time e \<and>
      current_price p =
        current_price_for_outcome
          (case mp (o_conditionId e) of None \<Rightarrow> empty_info | Some i \<Rightarrow> i) (o_outcome e) \<and>
      DUST < current_price p * net_shares p"
  by (induction entries) (auto simp: Let_def split: if_splits)

lemma concat_mem_mapM:
  assumes "mapM f xs = Inr yss" and "y \<in> set (concat yss)"
  shows "\<exists>x\<in>set xs. \<exists>ys. f x = Inr ys \<and> y \<in> set ys"
proof -
  from assms(2) obtain ys where ys: "ys \<in> set yss" "y \<in> set ys" by auto
  from assms(1) have "list_all2 (\<lambda>x y. f x = Inr y) xs yss" by (simp add: mapM_Inr_iff)
  from list_all2_right [OF this ys(1)] ys(2) show ?thesis by blast
qed

lemma open_raw_of_mem:
  assumes "open_raw_of activities = Inr entries" and "e \<in> set entries"
  shows "\<exists>redeemed meta fills es.
      redeemed_of activities = Inr redeemed \<and>
      fills = filter (\<lambda>a. is_trade a \<and> a_conditionId a = Some (o_conditionId e) \<and>
                          a_outcome a = Some (o_outcome e)) activities \<and>
      open_entry redeemed meta ((o_conditionId e, o_outcome e), fills) = Inr es \<and> e \<in> set es"
proof -
  from assms(1) obtain redeemed buckets meta ess where
    r: "redeemed_of activities = Inr redeemed"
    and f: "fills_loop activities [] Map.empty = Inr (buckets, meta)"
    and m: "mapM (open_entry redeemed meta) buckets = Inr ess"
    and s: "sorted_desc (\<lambda>p. py_int (o_last_buy_time p)) (concat ess) = Inr entries"
    by (auto simp: open_raw_of_def bind_Inr_iff)
  from s have "mset entries = mset (concat ess)" by (rule sorted_desc_mset)
  with assms(2) have "e \<in> set (concat ess)" by (metis mset_eq_setD)
  from concat_mem_mapM [OF m this] obtain b es where
    b: "b \<in> set buckets" and es: "open_entry redeemed meta b = Inr es" "e \<in> set es"
    by blast
  obtain cid outc fills where bb: "b = ((cid, outc), fills)" by (cases b) auto
  from open_entry_Inr [OF es [unfolded bb]] have k: "o_conditionId e = cid" "o_outcome e = outc"
    by simp_all
  from fills_loop_collect [OF f] have
    bk: "buckets = collect fill_key (filter is_trade activities) []"
    and present: "\<forall>a\<in>set activities. is_trade a \<longrightarrow> a_conditionId a \<noteq> None \<and> a_outcome a \<noteq> None"
    by simp_all
  from b have "fills = filter (\<lambda>a. fill_key a = (cid, outc)) (filter is_trade activities)"
    unfolding bb bk by (auto dest: collect_entry)
  also have "\<dots> = filter (\<lambda>a. is_trade a \<and> a_conditionId a = Some cid \<and> a_outcome a = Some outc) activities"
    using present by (auto intro!: filter_cong)
  finally have "fills = filter (\<lambda>a. is_trade a \<and> a_conditionId a = Some (o_conditionId e) \<and>
                          a_outcome a = Some (o_outcome e)) activities"
    unfolding k .
  with r es bb k show ?thesis by blast
qed

subsection \<open>\<^verbatim>\<open>int(str(n))\<close> is \<open>n\<close>\<close>

lemma digit_char_props:
  assumes "d < 10"
  shows "is_digit (digit_char d)" "digit_val (digit_char d) = d"
    "\<not> is_space (digit_char d)" "digit_char d \<noteq> CHR ''-''" "digit_char d \<noteq> CHR ''+''"
proof -
  have v: "(of_char (digit_char d) :: nat) = 48 + d"
    using assms by (simp add: digit_char_def)
  show "is_digit (digit_char d)" using assms by (simp add: is_digit_def v)
  show "digit_val (digit_char d) = d" by (simp add: digit_val_def v)
  show "\<not> is_space (digit_char d)" using assms by (simp add: is_space_def v)
  have "(of_char (digit_char d) :: nat) \<noteq> of_char CHR ''-''" by (simp add: v)
  then show "digit_char d \<noteq> CHR ''-''" by auto
  have "(of_char (digit_char d) :: nat) \<noteq> of_char CHR ''+''" by (simp add: v)
  then show "digit_char d \<noteq> CHR ''+''" by auto
qed

lemma digits_val_all_digits:
  "\<forall>c\<in>set cs. is_digit c \<Longrightarrow>
   digits_val acc cs = Some (foldl (\<lambda>a c. a * 10 + digit_val c) acc cs)"
  by (induction cs arbitrary: acc) simp_all

lemma digits_all: "\<forall>c\<in>set (digits n). is_digit c \<and> \<not> is_space c"
proof (induction n rule: digits.induct)
  case (1 n)
  show ?case
  proof (cases "n < 10")
    case True
    then show ?thesis by (subst digits.simps) (simp add: digit_char_props)
  next
    case False
    have "n mod 10 < 10" by simp
    with False 1 show ?thesis
      by (subst digits.simps) (simp add: digit_char_props)
  qed
qed

lemma digits_nonempty: "digits n \<noteq> []"
  by (subst digits.simps) simp

lemma digits_value: "foldl (\<lambda>a c. a * 10 + digit_val c) 0 (digits n) = n"
proof (induction n rule: digits.induct)
  case (1 n)
  show ?case
  proof (cases "n < 10")
    case True
    then show ?thesis by (subst digits.simps) (simp add: digit_char_props)
  next
    case False
    have "n mod 10 < 10" by simp
    with False 1 show ?thesis
      by (subst digits.simps) (simp add: digit_char_props)
  qed
qed

lemma parse_nat_digits: "parse_nat (digits n) = Some n"
proof -
  obtain c cs where cs: "digits n = c # cs"
    using digits_nonempty [of n] by (cases "digits n") auto
  with digits_all [of n] have "is_digit c" by simp
  moreover have "digits_val 0 (digits n) = Some n"
    using digits_all [of n] by (simp add: digits_val_all_digits digits_value)
  ultimately show ?thesis by (simp add: parse_nat_def cs)
qed

lemma strip_no_space: "\<forall>c\<in>set s. \<not> is_space c \<Longrightarrow> strip s = s"
proof -
  assume a: "\<forall>c\<in>set s. \<not> is_space c"
  then have 1: "dropWhile is_space s = s" by (cases s) simp_all
  from a have "\<forall>c\<in>set (rev s). \<not> is_space c" by simp
  then have 2: "dropWhile is_space (rev s) = rev s" by (cases "rev s") simp_all
  show ?thesis by (simp add: strip_def 1 2)
qed

lemma py_int_py_str [simp]: "py_int (py_str i) = Inr i"
proof (cases "i < 0")
  case True
  have "\<not> is_space CHR ''-''" by (simp add: is_space_def)
  with digits_all [of "nat (- i)"] have "strip (CHR ''-'' # digits (nat (- i))) = CHR ''-'' # digits (nat (- i))"
    by (intro strip_no_space) simp
  with True show ?thesis
    by (simp add: py_int_def py_str_def parse_nat_digits)
next
  case False
  obtain c cs where cs: "digits (nat i) = c # cs"
    using digits_nonempty [of "nat i"] by (cases "digits (nat i)") auto
  with digits_all [of "nat i"] have c: "is_digit c" by simp
  have "c \<noteq> CHR ''-''" "c \<noteq> CHR ''+''"
    using c by (auto simp: is_digit_def)
  moreover from digits_all [of "nat i"] have "strip (digits (nat i)) = digits (nat i)"
    by (intro strip_no_space) simp
  moreover have "parse_nat (c # cs) = Some (nat i)"
    using parse_nat_digits [of "nat i"] by (simp add: cs)
  ultimately show ?thesis using False
    by (simp add: py_int_def py_str_def cs)
qed













text \<open>
  Claim C6. Every Position of the output of \<^verbatim>\<open>get_open_positions\<close> has: \<^verbatim>\<open>net_shares\<close>
  equal to the sum of the BUY sizes minus the sum of the SELL sizes of the TRADE activities
  of its (market, outcome), and above 0; no REDEEM activity of its market in the input;
  and \<^verbatim>\<open>current_price * net_shares\<close> above 0.01. With 5 net shares, a price of 0.001
  gives no position and a price of 0.01 gives the position.
\<close>

theorem open_positions_conditions:
  assumes run: "get_open_positions gamma activities = Inr positions" and p: "p \<in> set positions"
  shows "(let fills = filter (\<lambda>a. is_trade a \<and> a_conditionId a = Some (p_market p) \<and>
                               a_outcome a = Some (p_outcome p)) activities
          in \<exists>bs ss.
               mapM size_of (filter (\<lambda>f. a_side f = Some ''BUY'') fills) = Inr bs \<and>
               mapM size_of (filter (\<lambda>f. a_side f = Some ''SELL'') fills) = Inr ss \<and>
               net_shares p = sum_list bs - sum_list ss) \<and>
     0 < net_shares p \<and>
     (\<forall>a\<in>set activities. is_redeem a \<longrightarrow> a_conditionId a \<noteq> Some (p_market p)) \<and>
     1 / 100 < current_price p * net_shares p \<and>
     get_open_positions (example_gamma (1 / 1000)) [activity_buy, activity_sell] = Inr [] \<and>
     get_open_positions (example_gamma (1 / 100)) [activity_buy, activity_sell] =
       Inr [\<lparr> p_market = ''0xabc'', p_market_title = ''Rain?'', p_category = ''weather'',
              p_outcome = ''Yes'', p_avg_buy_price = 2 / 5, current_price = 1 / 100,
              net_shares = 5, p_total_bought = 40, last_buy_time = ''1700000000'' \<rparr>]"
proof -
  from run obtain entries where
    entries: "open_raw_of activities = Inr entries"
    and positions: "positions = positions_loop (market_map gamma entries) entries"
    by (auto simp: get_open_positions_def bind_Inr_iff)
  from p positions_loop_mem [of p "market_map gamma entries" entries] obtain e where
    e: "e \<in> set entries" and k: "p_market p = o_conditionId e" "p_outcome p = o_outcome e"
    and n: "net_shares p = o_net_shares e" and d: "DUST < current_price p * net_shares p"
    unfolding positions by blast
  from open_raw_of_mem [OF entries e] obtain redeemed meta es where
    r: "redeemed_of activities = Inr redeemed"
    and es: "open_entry redeemed meta ((o_conditionId e, o_outcome e),
        filter (\<lambda>a. is_trade a \<and> a_conditionId a = Some (o_conditionId e) \<and>
                     a_outcome a = Some (o_outcome e)) activities) = Inr es" "e \<in> set es"
    by blast
  note facts = open_entry_Inr [OF es]
  from facts have 1: "let fills = filter (\<lambda>a. is_trade a \<and> a_conditionId a = Some (p_market p) \<and>
                               a_outcome a = Some (p_outcome p)) activities
          in \<exists>bs ss.
               mapM size_of (filter (\<lambda>f. a_side f = Some ''BUY'') fills) = Inr bs \<and>
               mapM size_of (filter (\<lambda>f. a_side f = Some ''SELL'') fills) = Inr ss \<and>
               net_shares p = sum_list bs - sum_list ss"
    unfolding Let_def k n by blast
  from facts n have 2: "0 < net_shares p" by simp
  from facts have "o_conditionId e \<notin> set redeemed" by blast
  with redeemed_of_set [OF r] have
    3: "\<forall>a\<in>set activities. is_redeem a \<longrightarrow> a_conditionId a \<noteq> Some (p_market p)"
    unfolding k by blast
  from d have 4: "1 / 100 < current_price p * net_shares p" by (simp add: DUST_def)
  have 5: "get_open_positions (example_gamma (1 / 1000)) [activity_buy, activity_sell] = Inr []"
    by code_simp
  have 6: "get_open_positions (example_gamma (1 / 100)) [activity_buy, activity_sell] =
       Inr [\<lparr> p_market = ''0xabc'', p_market_title = ''Rain?'', p_category = ''weather'',
              p_outcome = ''Yes'', p_avg_buy_price = 2 / 5, current_price = 1 / 100,
              net_shares = 5, p_total_bought = 40, last_buy_time = ''1700000000'' \<rparr>]"
    by code_simp
  from 1 2 3 4 5 6 show ?thesis by (intro conjI)
qed


theorem open_positions_conditions_witness:
  "\<exists>p. get_open_positions (example_gamma (1 / 100)) [activity_buy, activity_sell] = Inr [p] \<and>
     net_shares p = 5 \<and> current_price p = 1 / 100 \<and>
     0 < net_shares p \<and> 1 / 100 < current_price p * net_shares p \<and>
     (\<forall>a\<in>set [activity_buy, activity_sell]. is_redeem a \<longrightarrow> a_conditionId a \<noteq> Some (p_market p))"
proof -
  let ?p = "\<lparr> p_market = ''0xabc'', p_market_title = ''Rain?'', p_category = ''weather'',
              p_outcome = ''Yes'', p_avg_buy_price = 2 / 5, current_price = 1 / 100,
              net_shares = 5, p_total_bought = 40, last_buy_time = ''1700000000'' \<rparr>"
  have run: "get_open_positions (example_gamma (1 / 100)) [activity_buy, activity_sell] = Inr [?p]"
    by code_simp
  have mem: "?p \<in> set [?p]" by simp
  from open_positions_conditions [OF run mem] have
    "0 < net_shares ?p" "1 / 100 < current_price ?p * net_shares ?p"
    "\<forall>a\<in>set [activity_buy, activity_sell]. is_redeem a \<longrightarrow> a_conditionId a \<noteq> Some (p_market ?p)"
    by blast+
  with run show ?thesis by (intro exI [of _ ?p]) simp
qed






end
